theory Spec2Isabelle
  imports Main "HOL-Library.AList" "HOL-Library.Sublist"
begin

section \<open>Data model of walletTracker.ts\<close>

text \<open>
  A transaction as the explorer API returns it (interface \<open>Transaction\<close>). The source keeps
  \<open>blockNumber\<close> and \<open>timeStamp\<close> as decimal strings and reads them with \<open>Number(...)\<close>;
  the model stores the number that \<open>Number\<close> yields. Field names carry the prefix \<open>tx_\<close>
  because \<open>from\<close>, \<open>to\<close> and \<open>value\<close> are reserved words.
\<close>

record Transaction =
  tx_hash :: string
  tx_from :: string
  tx_to :: string
  tx_value :: string
  tx_blockNumber :: int
  tx_timeStamp :: int
  tx_input :: string

text \<open>The object built by the \<open>map\<close> in \<open>isSpamActivity\<close>.\<close>

record RecentTx =
  block :: int
  timestamp :: int
  hash :: string

text \<open>Interface \<open>WalletState\<close>.\<close>

record WalletState =
  isSpamming :: bool
  lastTxBlock :: int
  lastNotifiedTxHash :: string
  lastStateChangeTime :: int

text \<open>
  \<open>walletStates: Record<string, WalletState>\<close>. An association list in insertion order, as
  a JavaScript object enumerates its string keys; \<open>map_of\<close> looks a key up and
  \<open>AList.update\<close> overwrites a key in place or appends a new one.
\<close>

type_synonym walletStates = "(string \<times> WalletState) list"

datatype transition = Start | Stop

text \<open>The result object \<open>{ shouldNotify, type }\<close>; \<open>None\<close> is \<open>null\<close>.\<close>

record SpamResult =
  shouldNotify :: bool
  type :: "transition option"

definition noChange :: SpamResult where
  "noChange = \<lparr>shouldNotify = False, type = None\<rparr>"

definition newWalletState :: WalletState where
  "newWalletState =
     \<lparr>isSpamming = False, lastTxBlock = 0, lastNotifiedTxHash = [], lastStateChangeTime = 0\<rparr>"

text \<open>The state object the classifier works on: the stored one, or the one it creates.\<close>

definition stateOf :: "walletStates \<Rightarrow> string \<Rightarrow> WalletState" where
  "stateOf ws address = (case map_of ws address of None \<Rightarrow> newWalletState | Some s \<Rightarrow> s)"

section \<open>The burst classifier\<close>

text \<open>
  \<open>transactions.slice(0, 3).map(...).sort((a, b) => b.block - a.block)\<close>: the first three
  entries, sorted by descending block. \<open>Array.prototype.sort\<close> is stable, as is \<open>sort_key\<close>.
\<close>

definition recentTxs_of :: "Transaction list \<Rightarrow> RecentTx list" where
  "recentTxs_of transactions =
     sort_key (\<lambda>t. - block t)
       (map (\<lambda>tx. \<lparr>block = tx_blockNumber tx, timestamp = tx_timeStamp tx, hash = tx_hash tx\<rparr>)
            (take 3 transactions))"

text \<open>
  \<open>isSpamActivity(transactions, address, currentBlock)\<close>. The wall clock
  \<open>Math.floor(Date.now() / 1000)\<close> is the argument \<open>now\<close>; the global \<open>walletStates\<close> is
  passed in and returned.
\<close>

definition isSpamActivity ::
  "Transaction list \<Rightarrow> string \<Rightarrow> int \<Rightarrow> int \<Rightarrow> walletStates \<Rightarrow> SpamResult \<times> walletStates" where
  "isSpamActivity transactions address currentBlock now ws0 =
    (let ws = (case map_of ws0 address of
                 None \<Rightarrow> AList.update address newWalletState ws0
               | Some _ \<Rightarrow> ws0);
         state = stateOf ws0 address;
         recentTxs = recentTxs_of transactions
     in case recentTxs of
          [] \<Rightarrow> (noChange, ws)
        | tx0 # _ \<Rightarrow>
            if hash tx0 = lastNotifiedTxHash state then (noChange, ws)
            else if now - lastStateChangeTime state < 30 then (noChange, ws)
            else
              let timeSinceLastTx = now - timestamp tx0;
                  blocksSinceLastTx = currentBlock - block tx0
              in if isSpamming state then
                   (if blocksSinceLastTx > 20 then
                      (\<lparr>shouldNotify = True, type = Some Stop\<rparr>,
                       AList.update address
                         (state\<lparr>isSpamming := False, lastNotifiedTxHash := hash tx0,
                                lastTxBlock := block tx0, lastStateChangeTime := now\<rparr>) ws)
                    else (noChange, ws))
                 else if length recentTxs \<ge> 3 \<and>
                         list_all (\<lambda>gap. gap \<le> 3)
                           [block (recentTxs ! 0) - block (recentTxs ! 1),
                            block (recentTxs ! 1) - block (recentTxs ! 2)] \<and>
                         blocksSinceLastTx \<le> 3 then
                   (\<lparr>shouldNotify = True, type = Some Start\<rparr>,
                    AList.update address
                      (state\<lparr>isSpamming := True, lastNotifiedTxHash := hash tx0,
                             lastTxBlock := block tx0, lastStateChangeTime := now\<rparr>) ws)
                 else
                   (noChange, AList.update address (state\<lparr>lastTxBlock := block tx0\<rparr>) ws))"

section \<open>The classification loop of the poll scheduler\<close>

text \<open>
  One pass of the \<open>for\<close> loop in \<open>monitorWalletBatch\<close>: the address, the transactions
  fetched for it, the chain height of the tick, and the clock that \<open>isSpamActivity\<close> reads.
\<close>

record Call =
  call_address :: string
  call_transactions :: "Transaction list"
  call_currentBlock :: int
  call_now :: int

text \<open>
  What \<open>sendDiscordNotification(latestTx, message)\<close> is given: \<open>latestTx\<close> is
  \<open>transactions[0]\<close>, and the message is fixed by the transition type.
\<close>

record Notification =
  n_address :: string
  n_latestTx :: Transaction
  n_type :: transition

text \<open>
  The loop body, over any sequence of calls: an empty result is skipped
  (\<open>if (!transactions.length) continue\<close>), otherwise the classifier runs and a notification
  is sent when \<open>shouldNotify && type\<close>.
\<close>

fun monitorCalls :: "Call list \<Rightarrow> walletStates \<Rightarrow> Notification list \<times> walletStates" where
  "monitorCalls [] ws = ([], ws)"
| "monitorCalls (c # cs) ws =
     (case call_transactions c of
        [] \<Rightarrow> monitorCalls cs ws
      | latestTx # _ \<Rightarrow>
          (let (r, ws1) = isSpamActivity (call_transactions c) (call_address c)
                            (call_currentBlock c) (call_now c) ws;
               sent = (case type r of
                         None \<Rightarrow> []
                       | Some t \<Rightarrow>
                           if shouldNotify r
                           then [\<lparr>n_address = call_address c, n_latestTx = latestTx, n_type = t\<rparr>]
                           else []);
               (ns, ws2) = monitorCalls cs ws1
           in (sent @ ns, ws2)))"

text \<open>The transition types notified for one address, in the order they were sent.\<close>

definition typesFor :: "string \<Rightarrow> Notification list \<Rightarrow> transition list" where
  "typesFor address ns = map n_type (filter (\<lambda>n. n_address n = address) ns)"

text \<open>No two neighbours of the list are the same transition.\<close>

fun alternates :: "transition list \<Rightarrow> bool" where
  "alternates (x # y # zs) = (x \<noteq> y \<and> alternates (y # zs))"
| "alternates _ = True"

text \<open>The hash the classifier compares with \<open>lastNotifiedTxHash\<close>: that of \<open>recentTxs[0]\<close>.\<close>

definition topHash :: "Transaction list \<Rightarrow> string option" where
  "topHash transactions =
     (case recentTxs_of transactions of [] \<Rightarrow> None | tx0 # _ \<Rightarrow> Some (hash tx0))"






section \<open>The key-rotated rate limiter\<close>

text \<open>\<open>API_SETTINGS\<close>.\<close>

definition MAX_RETRIES :: nat where
  "MAX_RETRIES = 3"

definition RETRY_DELAY :: int where
  "RETRY_DELAY = 1000"

definition RATE_LIMIT_DELAY :: int where
  "RATE_LIMIT_DELAY = 50"

text \<open>
  The module-level state the limiter and the fetchers work on, and the part of the
  environment they touch. \<open>API_KEYS\<close>, \<open>currentApiKeyIndex\<close> and \<open>lastApiCalls\<close> are the
  globals of the source; \<open>clock\<close> is what \<open>Date.now()\<close> returns, in milliseconds. Three
  logs record what the code did: \<open>delays\<close> the argument of every \<open>delay(ms)\<close>, \<open>recorded\<close>
  every assignment \<open>lastApiCalls[keyIndex] = Date.now()\<close> as (index, time), and \<open>requests\<close>
  the \<open>apikey\<close> of every \<open>axios.get\<close>, each in the order of execution.

  The pool is taken to be non-empty with \<open>currentApiKeyIndex\<close> inside it, as it is whenever
  \<open>BASESCAN_API_KEY\<close> is set (for an empty pool JavaScript's \<open>%\<close> yields \<open>NaN\<close>).
\<close>

record World =
  API_KEYS :: "string list"
  currentApiKeyIndex :: nat
  lastApiCalls :: "int list"
  clock :: int
  delays :: "int list"
  recorded :: "(nat \<times> int) list"
  requests :: "string list"

text \<open>
  \<open>await delay(ms)\<close> in a single thread of control: the timer is due \<open>ms\<close> milliseconds
  later and time moves on to that moment.
\<close>

definition delay :: "int \<Rightarrow> World \<Rightarrow> World" where
  "delay ms w = w\<lparr>clock := clock w + max 0 ms, delays := delays w @ [ms]\<rparr>"

text \<open>\<open>getNextApiKey()\<close>: the key at the cursor, and the cursor moved on.\<close>

definition getNextApiKey :: "World \<Rightarrow> string \<times> World" where
  "getNextApiKey w =
     (let key = API_KEYS w ! currentApiKeyIndex w
      in (key, w\<lparr>currentApiKeyIndex := (currentApiKeyIndex w + 1) mod length (API_KEYS w)\<rparr>))"

text \<open>
  \<open>rateLimitedDelay()\<close> in three pieces, split where the function can be suspended. First
  the test: \<open>Some ms\<close> when \<open>await delay(ms)\<close> is due, \<open>None\<close> when the branch is skipped.
\<close>

definition rateLimitWait :: "World \<Rightarrow> int option" where
  "rateLimitWait w =
     (let now = clock w;
          keyIndex = currentApiKeyIndex w;
          timeSinceLastCall = now - lastApiCalls w ! keyIndex
      in if timeSinceLastCall < RATE_LIMIT_DELAY
         then Some (RATE_LIMIT_DELAY - timeSinceLastCall) else None)"

text \<open>The last statement, \<open>lastApiCalls[keyIndex] = Date.now()\<close>, with the index read earlier.\<close>

definition recordCall :: "nat \<Rightarrow> World \<Rightarrow> World" where
  "recordCall keyIndex w =
     w\<lparr>lastApiCalls := (lastApiCalls w)[keyIndex := clock w],
       recorded := recorded w @ [(keyIndex, clock w)]\<rparr>"

text \<open>The whole function when nothing else runs in between.\<close>

definition rateLimitedDelay :: "World \<Rightarrow> World" where
  "rateLimitedDelay w =
     (let keyIndex = currentApiKeyIndex w
      in case rateLimitWait w of
           None \<Rightarrow> recordCall keyIndex w
         | Some ms \<Rightarrow> recordCall keyIndex (delay ms w))"

text \<open>
  Building the request: \<open>axios.get(url, { params: { ..., apikey: getNextApiKey() } })\<close>
  takes the next key and sends it.
\<close>

definition sendRequest :: "World \<Rightarrow> World" where
  "sendRequest w =
     (let (apikey, w1) = getNextApiKey w
      in w1\<lparr>requests := requests w1 @ [apikey]\<rparr>)"

section \<open>The resilient fetchers\<close>




text \<open>
  The reply to the \<open>eth_blockNumber\<close> request: an exception, or \<open>response.data.result\<close>:
  \<open>None\<close> when it is falsy, else the number \<open>parseInt(result, 16)\<close> reads from it.
\<close>

datatype HeightReply = Height_error | Height_data "int option"

text \<open>\<open>Math.max(...values)\<close>; of no values it is \<open>-Infinity\<close>, here \<open>None\<close>.\<close>

fun Math_max :: "int list \<Rightarrow> int option" where
  "Math_max [] = None"
| "Math_max (x # xs) = (case Math_max xs of None \<Rightarrow> Some x | Some m \<Rightarrow> Some (max x m))"

text \<open>The last lines of the \<open>catch\<close> block: the last known block, or the base estimate.\<close>

definition lastKnownBlockOr :: "walletStates \<Rightarrow> int" where
  "lastKnownBlockOr ws =
     (case Math_max (filter (\<lambda>block. block > 0) (map (\<lambda>state. lastTxBlock state) (map snd ws))) of
        None \<Rightarrow> 24000000
      | Some lastKnownBlock \<Rightarrow> if lastKnownBlock > 0 then lastKnownBlock else 24000000)"

text \<open>
  \<open>getCurrentBlockNumber(retryCount)\<close>. A falsy result throws inside the \<open>try\<close> and is
  handled like any other exception.
\<close>

function getCurrentBlockNumber ::
  "(nat \<Rightarrow> HeightReply) \<Rightarrow> walletStates \<Rightarrow> nat \<Rightarrow> World \<Rightarrow> int \<times> World" where
  "getCurrentBlockNumber api ws retryCount w =
     (let w1 = rateLimitedDelay w;
          w2 = sendRequest w1
      in case api (length (requests w1)) of
           Height_data (Some blockNumber) \<Rightarrow> (blockNumber, w2)
         | _ \<Rightarrow>
             if retryCount < MAX_RETRIES
             then getCurrentBlockNumber api ws (retryCount + 1)
                    (delay (RETRY_DELAY * (int retryCount + 1)) w2)
             else (lastKnownBlockOr ws, w2))"
  by pat_completeness auto
termination
  by (relation "measure (\<lambda>(api, ws, retryCount, w). MAX_RETRIES - retryCount)") auto

section \<open>Fetches started together\<close>

text \<open>
  \<open>monitorWalletBatch\<close> starts all fetches at once,
  \<open>Promise.all(addresses.map(address => fetchTransactions(address)))\<close>. Each call runs until
  its first suspension before the next one starts: inside \<open>rateLimitedDelay()\<close> it either
  skips the wait, records the call and is ready to continue, or it is suspended in
  \<open>await delay(ms)\<close> holding the index it read and the time its timer is due.
\<close>

datatype Task = Ready | Sleeping nat int

definition startFetch :: "World \<Rightarrow> Task \<times> World" where
  "startFetch w =
     (let keyIndex = currentApiKeyIndex w
      in case rateLimitWait w of
           None \<Rightarrow> (Ready, recordCall keyIndex w)
         | Some ms \<Rightarrow> (Sleeping keyIndex (clock w + max 0 ms), w\<lparr>delays := delays w @ [ms]\<rparr>))"

fun startAll :: "nat \<Rightarrow> World \<Rightarrow> Task list \<times> World" where
  "startAll 0 w = ([], w)"
| "startAll (Suc n) w =
     (let (t, w1) = startFetch w;
          (ts, w2) = startAll n w1
      in (t # ts, w2))"

text \<open>
  When the synchronous code has run, the calls that did not wait continue in the order they
  were started, each sending its request.
\<close>

fun resumeReady :: "Task list \<Rightarrow> World \<Rightarrow> World" where
  "resumeReady [] w = w"
| "resumeReady (Ready # ts) w = resumeReady ts (sendRequest w)"
| "resumeReady (Sleeping keyIndex due # ts) w = resumeReady ts w"

text \<open>
  Then the timers fire in the order they are due (timers due together in the order they were
  set). A woken call finishes \<open>rateLimitedDelay()\<close> by recording the call under the index it
  read before sleeping, and sends its request.
\<close>

fun sleepers :: "Task list \<Rightarrow> (nat \<times> int) list" where
  "sleepers [] = []"
| "sleepers (Ready # ts) = sleepers ts"
| "sleepers (Sleeping keyIndex due # ts) = (keyIndex, due) # sleepers ts"

fun fireTimers :: "(nat \<times> int) list \<Rightarrow> World \<Rightarrow> World" where
  "fireTimers [] w = w"
| "fireTimers ((keyIndex, due) # timers) w =
     fireTimers timers (sendRequest (recordCall keyIndex (w\<lparr>clock := max (clock w) due\<rparr>)))"

definition startFetchesTogether :: "nat \<Rightarrow> World \<Rightarrow> World" where
  "startFetchesTogether n w =
     (let (tasks, w1) = startAll n w;
          w2 = resumeReady tasks w1
      in fireTimers (sort_key snd (sleepers tasks)) w2)"

text \<open>
  The spacing the limiter is meant to keep, read off the log of recorded calls: every record
  of a slot is followed, if at all, by a record of the same slot at least
  \<open>RATE_LIMIT_DELAY\<close> later.
\<close>

fun spacingKept :: "(nat \<times> int) list \<Rightarrow> bool" where
  "spacingKept [] = True"
| "spacingKept ((keyIndex, t) # later) =
     ((case filter (\<lambda>r. fst r = keyIndex) later of
         [] \<Rightarrow> True
       | next_use # _ \<Rightarrow> t + RATE_LIMIT_DELAY \<le> snd next_use)
      \<and> spacingKept later)"

text \<open>
  The requests of one tick of \<open>monitorWalletBatch\<close> for \<open>n\<close> addresses: the chain height is
  awaited first, the tick is skipped when it is 0, and then the fetches are started together.
\<close>

definition monitorWalletBatch_requests ::
  "(nat \<Rightarrow> HeightReply) \<Rightarrow> walletStates \<Rightarrow> nat \<Rightarrow> World \<Rightarrow> World" where
  "monitorWalletBatch_requests api ws n w =
     (let (currentBlock, w1) = getCurrentBlockNumber api ws 0 w
      in if currentBlock = 0 then w1 else startFetchesTogether n w1)"

section \<open>Example inputs\<close>

definition mkTx :: "string \<Rightarrow> int \<Rightarrow> Transaction" where
  "mkTx h b = \<lparr>tx_hash = h, tx_from = ''0xsender'', tx_to = ''0xwallet'', tx_value = ''0'',
              tx_blockNumber = b, tx_timeStamp = 1700000000, tx_input = ''0x''\<rparr>"

definition burstTxs :: "Transaction list" where
  "burstTxs = [mkTx ''0xh1'' 102, mkTx ''0xa'' 101, mkTx ''0xb'' 100]"

definition burstingState :: WalletState where
  "burstingState = \<lparr>isSpamming = True, lastTxBlock = 102, lastNotifiedTxHash = ''0xh1'',
                     lastStateChangeTime = 1700000000\<rparr>"

text \<open>Five keys, none used yet, at some moment of the clock.\<close>

definition freshWorld :: World where
  "freshWorld = \<lparr>API_KEYS = [''k0'', ''k1'', ''k2'', ''k3'', ''k4''], currentApiKeyIndex = 0,
                  lastApiCalls = [0, 0, 0, 0, 0], clock = 1700000000000,
                  delays = [], recorded = [], requests = []\<rparr>"



definition heightAnswered :: "nat \<Rightarrow> HeightReply" where
  "heightAnswered n = Height_data (Some 24000100)"

definition knownStates :: walletStates where
  "knownStates =
     [(''0xwallet'', burstingState), (''0xidle'', newWalletState),
      (''0xlater'', newWalletState\<lparr>lastTxBlock := 250\<rparr>)]"

text \<open>
  Three calls on one address: a burst starts on \<open>0xh1\<close>; a newer transaction \<open>0xh2\<close> is
  seen 21 blocks late and stops it; then the source answers without \<open>0xh2\<close> again while
  the height is the estimate 104.
\<close>

definition replayCalls :: "Call list" where
  "replayCalls =
     [\<lparr>call_address = ''0xwallet'', call_transactions = burstTxs,
       call_currentBlock = 103, call_now = 1700000000\<rparr>,
      \<lparr>call_address = ''0xwallet'', call_transactions = mkTx ''0xh2'' 104 # burstTxs,
       call_currentBlock = 125, call_now = 1700000040\<rparr>,
      \<lparr>call_address = ''0xwallet'', call_transactions = burstTxs,
       call_currentBlock = 104, call_now = 1700000080\<rparr>]"


section \<open>Properties of the classifier\<close>

text \<open>
  Claim C10. Whatever the transactions, address, chain height, clock and prior states, the
  result of \<open>isSpamActivity\<close> has \<open>shouldNotify\<close> true exactly when \<open>type\<close> is not null.
\<close>

theorem isSpamActivity_notify_iff_type:
  "shouldNotify (fst (isSpamActivity transactions address currentBlock now ws))
     = (type (fst (isSpamActivity transactions address currentBlock now ws)) \<noteq> None)"
  by (simp add: isSpamActivity_def noChange_def Let_def split: list.split)


subsection \<open>Reading the state back\<close>

lemma stateOf_update:
  "stateOf (AList.update a s ws) b = (if b = a then s else stateOf ws b)"
  by (simp add: stateOf_def update_conv')

lemma stateOf_created:
  "stateOf (case map_of ws a of None \<Rightarrow> AList.update a newWalletState ws | Some x \<Rightarrow> ws) b
     = stateOf ws b"
  by (auto simp: stateOf_def update_conv' split: option.splits)

lemma length_recentTxs_of: "length (recentTxs_of transactions) = min 3 (length transactions)"
  by (simp add: recentTxs_of_def min.commute)


lemma isSpamActivity_other_address:
  "b \<noteq> address \<Longrightarrow>
     stateOf (snd (isSpamActivity transactions address currentBlock now ws)) b = stateOf ws b"
  by (simp add: isSpamActivity_def Let_def stateOf_update stateOf_created split: list.split)

subsection \<open>Single calls\<close>

text \<open>
  Claim C1. A call on an address that is idle, with at least one transaction, a top hash other
  than \<open>lastNotifiedTxHash\<close> and at least 30 seconds since the last state change: the start
  transition fires exactly when three transactions are available, both block gaps of the
  (block-sorted) window are at most 3 and the top transaction is at most 3 blocks behind the
  chain height. When it fires the result is \<open>{true, 'start'}\<close> and the state becomes spamming
  with hash, block and change time taken from the top transaction and the clock.
\<close>

theorem idle_to_bursting:
  assumes "\<not> isSpamming (stateOf ws address)"
    and "recentTxs_of transactions = tx0 # rest"
    and "hash tx0 \<noteq> lastNotifiedTxHash (stateOf ws address)"
    and "\<not> now - lastStateChangeTime (stateOf ws address) < 30"
  shows "(type (fst (isSpamActivity transactions address currentBlock now ws)) = Some Start)
          = (length transactions \<ge> 3
             \<and> block (recentTxs_of transactions ! 0) - block (recentTxs_of transactions ! 1) \<le> 3
             \<and> block (recentTxs_of transactions ! 1) - block (recentTxs_of transactions ! 2) \<le> 3
             \<and> currentBlock - block (recentTxs_of transactions ! 0) \<le> 3)
       \<and> fst (isSpamActivity transactions address currentBlock now ws)
          = (if type (fst (isSpamActivity transactions address currentBlock now ws)) = Some Start
             then \<lparr>shouldNotify = True, type = Some Start\<rparr> else noChange)
       \<and> stateOf (snd (isSpamActivity transactions address currentBlock now ws)) address
          = (if type (fst (isSpamActivity transactions address currentBlock now ws)) = Some Start
             then \<lparr>isSpamming = True, lastTxBlock = block tx0, lastNotifiedTxHash = hash tx0,
                   lastStateChangeTime = now\<rparr>
             else (stateOf ws address)\<lparr>lastTxBlock := block tx0\<rparr>)"
proof -
  have len: "(3 \<le> length (tx0 # rest)) = (3 \<le> length transactions)"
    using length_recentTxs_of [of transactions] assms(2) by (simp add: min_def split: if_splits)
  show ?thesis
    using assms len
    by (simp add: isSpamActivity_def noChange_def Let_def stateOf_update stateOf_created)
qed

theorem idle_to_bursting_witness:
  "type (fst (isSpamActivity burstTxs ''0xwallet'' 103 1700000000 [])) = Some Start
   \<and> fst (isSpamActivity burstTxs ''0xwallet'' 103 1700000000 [])
       = \<lparr>shouldNotify = True, type = Some Start\<rparr>
   \<and> stateOf (snd (isSpamActivity burstTxs ''0xwallet'' 103 1700000000 [])) ''0xwallet''
       = \<lparr>isSpamming = True, lastTxBlock = 102, lastNotifiedTxHash = ''0xh1'',
          lastStateChangeTime = 1700000000\<rparr>"
proof -
  have r: "recentTxs_of burstTxs =
             \<lparr>block = 102, timestamp = 1700000000, hash = ''0xh1''\<rparr>
             # [\<lparr>block = 101, timestamp = 1700000000, hash = ''0xa''\<rparr>,
                \<lparr>block = 100, timestamp = 1700000000, hash = ''0xb''\<rparr>]"
    by (simp add: recentTxs_of_def burstTxs_def mkTx_def)
  have s: "stateOf [] ''0xwallet'' = newWalletState"
    by (simp add: stateOf_def)
  have l: "length burstTxs = 3"
    by (simp add: burstTxs_def)
  have h1: "\<not> isSpamming (stateOf [] ''0xwallet'')"
    and h3: "hash \<lparr>block = 102, timestamp = 1700000000, hash = ''0xh1''\<rparr>
               \<noteq> lastNotifiedTxHash (stateOf [] ''0xwallet'')"
    and h4: "\<not> 1700000000 - lastStateChangeTime (stateOf [] ''0xwallet'') < 30"
    by (simp_all add: s newWalletState_def)
  note th = idle_to_bursting [OF h1 r h3 h4, of 103]
  from th have fires: "type (fst (isSpamActivity burstTxs ''0xwallet'' 103 1700000000 [])) = Some Start"
    by (simp add: r l)
  from th fires show ?thesis
    by simp
qed

text \<open>
  Claim C5. A call made less than 30 seconds after the address's last state change returns
  \<open>{false, null}\<close> and leaves the state of every address as it was, whatever the
  transactions and the chain height are.
\<close>

theorem hysteresis_no_decision:
  assumes "now - lastStateChangeTime (stateOf ws address) < 30"
  shows "fst (isSpamActivity transactions address currentBlock now ws) = noChange
       \<and> (\<forall>a. stateOf (snd (isSpamActivity transactions address currentBlock now ws)) a
                = stateOf ws a)"
  using assms
  by (simp add: isSpamActivity_def Let_def stateOf_created split: list.split)

text \<open>
  The address is bursting since 1700000000 and the stop condition holds (the top transaction
  is 23 blocks behind), but only 10 seconds have passed.
\<close>

theorem hysteresis_no_decision_witness:
  "fst (isSpamActivity [mkTx ''0xh2'' 102] ''0xwallet'' 125 1700000010
          [(''0xwallet'', burstingState)]) = noChange
   \<and> stateOf (snd (isSpamActivity [mkTx ''0xh2'' 102] ''0xwallet'' 125 1700000010
          [(''0xwallet'', burstingState)])) ''0xwallet'' = burstingState"
proof -
  have h: "1700000010 - lastStateChangeTime (stateOf [(''0xwallet'', burstingState)] ''0xwallet'') < 30"
    by (simp add: stateOf_def burstingState_def)
  from hysteresis_no_decision [OF h, of "[mkTx ''0xh2'' 102]" 125] show ?thesis
    by (simp add: stateOf_def)
qed

text \<open>
  Claim C2, as stated, fails: a bursting address whose stop condition does not hold passes the
  entry guards, no transition fires, and \<open>lastTxBlock\<close> keeps its old value 102 although the
  top transaction is in block 110.
\<close>

theorem bursting_keeps_lastTxBlock_counterexample:
  "topHash [mkTx ''0xh2'' 110] = Some ''0xh2''
   \<and> ''0xh2'' \<noteq> lastNotifiedTxHash (stateOf [(''0xwallet'', burstingState)] ''0xwallet'')
   \<and> \<not> 1700000100 - lastStateChangeTime (stateOf [(''0xwallet'', burstingState)] ''0xwallet'') < 30
   \<and> fst (isSpamActivity [mkTx ''0xh2'' 110] ''0xwallet'' 112 1700000100
            [(''0xwallet'', burstingState)]) = noChange
   \<and> lastTxBlock (stateOf (snd (isSpamActivity [mkTx ''0xh2'' 110] ''0xwallet'' 112 1700000100
            [(''0xwallet'', burstingState)])) ''0xwallet'') = 102
   \<and> tx_blockNumber (mkTx ''0xh2'' 110) = 110"
  by (simp add: isSpamActivity_def recentTxs_of_def topHash_def mkTx_def stateOf_def
        burstingState_def noChange_def)

text \<open>
  Claim C2, amended. A call that passes the entry guards and returns no transition leaves every
  other address alone; for an idle address it sets \<open>lastTxBlock\<close> to the top transaction's
  block and changes nothing else; for a bursting address it changes nothing at all.
\<close>

theorem no_transition_state:
  assumes "recentTxs_of transactions = tx0 # rest"
    and "hash tx0 \<noteq> lastNotifiedTxHash (stateOf ws address)"
    and "\<not> now - lastStateChangeTime (stateOf ws address) < 30"
    and "type (fst (isSpamActivity transactions address currentBlock now ws)) = None"
  shows "fst (isSpamActivity transactions address currentBlock now ws) = noChange
       \<and> stateOf (snd (isSpamActivity transactions address currentBlock now ws)) address
          = (if isSpamming (stateOf ws address) then stateOf ws address
             else (stateOf ws address)\<lparr>lastTxBlock := block tx0\<rparr>)
       \<and> (\<forall>a. a \<noteq> address \<longrightarrow>
            stateOf (snd (isSpamActivity transactions address currentBlock now ws)) a
              = stateOf ws a)"
  using assms
  by (simp add: isSpamActivity_def Let_def stateOf_update stateOf_created noChange_def
        split: if_splits)

text \<open>An idle address seeing a single transaction: only \<open>lastTxBlock\<close> moves, to 110.\<close>

theorem no_transition_state_witness:
  "fst (isSpamActivity [mkTx ''0xh2'' 110] ''0xwallet'' 112 1700000100 []) = noChange
   \<and> stateOf (snd (isSpamActivity [mkTx ''0xh2'' 110] ''0xwallet'' 112 1700000100 [])) ''0xwallet''
       = newWalletState\<lparr>lastTxBlock := 110\<rparr>"
proof -
  have r: "recentTxs_of [mkTx ''0xh2'' 110]
             = \<lparr>block = 110, timestamp = 1700000000, hash = ''0xh2''\<rparr> # []"
    by (simp add: recentTxs_of_def mkTx_def)
  have s: "stateOf [] ''0xwallet'' = newWalletState"
    by (simp add: stateOf_def)
  have h2: "hash \<lparr>block = 110, timestamp = 1700000000, hash = ''0xh2''\<rparr>
              \<noteq> lastNotifiedTxHash (stateOf [] ''0xwallet'')"
    and h3: "\<not> 1700000100 - lastStateChangeTime (stateOf [] ''0xwallet'') < 30"
    by (simp_all add: s newWalletState_def)
  have h4: "type (fst (isSpamActivity [mkTx ''0xh2'' 110] ''0xwallet'' 112 1700000100 [])) = None"
    by (simp add: isSpamActivity_def r s newWalletState_def noChange_def)
  from no_transition_state [OF r h2 h3 h4] show ?thesis
    by (simp add: s newWalletState_def)
qed

subsection \<open>What one call does to the state\<close>

lemma isSpamActivity_no_type:
  assumes "type (fst (isSpamActivity transactions address currentBlock now ws)) = None"
  shows "isSpamming (stateOf (snd (isSpamActivity transactions address currentBlock now ws)) address)
           = isSpamming (stateOf ws address)"
proof (cases "recentTxs_of transactions")
  case Nil
  then show ?thesis
    by (simp add: isSpamActivity_def stateOf_created)
next
  case (Cons tx0 rest)
  with assms show ?thesis
    by (simp add: isSpamActivity_def Let_def stateOf_update stateOf_created noChange_def
          split: if_splits)
qed

lemma isSpamActivity_some_type:
  assumes "type (fst (isSpamActivity transactions address currentBlock now ws)) = Some t"
  shows "(t = Start) = (\<not> isSpamming (stateOf ws address))
       \<and> isSpamming (stateOf (snd (isSpamActivity transactions address currentBlock now ws)) address)
           = (t = Start)
       \<and> topHash transactions
           = Some (lastNotifiedTxHash
                (stateOf (snd (isSpamActivity transactions address currentBlock now ws)) address))"
proof (cases "recentTxs_of transactions")
  case Nil
  with assms show ?thesis
    by (simp add: isSpamActivity_def noChange_def)
next
  case (Cons tx0 rest)
  with assms show ?thesis
    by (auto simp add: isSpamActivity_def Let_def stateOf_update stateOf_created noChange_def
          topHash_def split: if_splits)
qed


lemma isSpamActivity_time_mono:
  "lastStateChangeTime (stateOf ws a)
     \<le> lastStateChangeTime
          (stateOf (snd (isSpamActivity transactions address currentBlock now ws)) a)"
proof (cases "recentTxs_of transactions")
  case Nil
  then show ?thesis
    by (simp add: isSpamActivity_def stateOf_created)
next
  case (Cons tx0 rest)
  then show ?thesis
    by (simp add: isSpamActivity_def Let_def stateOf_update stateOf_created)
qed

lemma isSpamActivity_shouldNotify:
  "shouldNotify (fst (isSpamActivity transactions address currentBlock now ws))
     = (type (fst (isSpamActivity transactions address currentBlock now ws)) \<noteq> None)"
  by (simp add: isSpamActivity_def noChange_def Let_def split: list.split)

subsection \<open>Sequences of calls\<close>

lemma monitorCalls_skip:
  "call_transactions c = [] \<Longrightarrow> monitorCalls (c # cs) ws = monitorCalls cs ws"
  by simp

lemma monitorCalls_quiet:
  assumes "call_transactions c \<noteq> []"
    and "type (fst (isSpamActivity (call_transactions c) (call_address c)
                     (call_currentBlock c) (call_now c) ws)) = None"
  shows "monitorCalls (c # cs) ws =
           monitorCalls cs (snd (isSpamActivity (call_transactions c) (call_address c)
                                   (call_currentBlock c) (call_now c) ws))"
proof -
  from assms(1) obtain latestTx others where "call_transactions c = latestTx # others"
    by (cases "call_transactions c") auto
  with assms(2) show ?thesis
    by (simp add: case_prod_beta)
qed

lemma monitorCalls_sent:
  assumes "call_transactions c = latestTx # others"
    and "type (fst (isSpamActivity (call_transactions c) (call_address c)
                     (call_currentBlock c) (call_now c) ws)) = Some t"
  shows "monitorCalls (c # cs) ws =
           (\<lparr>n_address = call_address c, n_latestTx = latestTx, n_type = t\<rparr>
              # fst (monitorCalls cs (snd (isSpamActivity (call_transactions c) (call_address c)
                                            (call_currentBlock c) (call_now c) ws))),
            snd (monitorCalls cs (snd (isSpamActivity (call_transactions c) (call_address c)
                                         (call_currentBlock c) (call_now c) ws))))"
proof -
  have "shouldNotify (fst (isSpamActivity (call_transactions c) (call_address c)
                            (call_currentBlock c) (call_now c) ws))"
    using assms(2) by (simp add: isSpamActivity_shouldNotify)
  with assms show ?thesis
    by (simp add: case_prod_beta)
qed

lemma alternates_Cons:
  "alternates (t # ts) = ((ts = [] \<or> hd ts \<noteq> t) \<and> alternates ts)"
  by (cases ts) auto

lemma typesFor_Cons:
  "typesFor a (n # ns) = (if n_address n = a then n_type n # typesFor a ns else typesFor a ns)"
  by (simp add: typesFor_def)

lemma typesFor_alternates_from:
  "alternates (typesFor a (fst (monitorCalls cs ws)))
   \<and> (typesFor a (fst (monitorCalls cs ws)) \<noteq> [] \<longrightarrow>
        hd (typesFor a (fst (monitorCalls cs ws)))
          = (if isSpamming (stateOf ws a) then Stop else Start))"
proof (induction cs arbitrary: ws)
  case Nil
  show ?case by (simp add: typesFor_def)
next
  case (Cons c cs)
  let ?R = "isSpamActivity (call_transactions c) (call_address c)
              (call_currentBlock c) (call_now c) ws"
  show ?case
  proof (cases "call_transactions c")
    case Nil
    then show ?thesis using Cons.IH [of ws] by simp
  next
    case txs: (Cons latestTx others)
    show ?thesis
    proof (cases "type (fst ?R)")
      case None
      have same: "isSpamming (stateOf (snd ?R) a) = isSpamming (stateOf ws a)"
      proof (cases "a = call_address c")
        case True
        then show ?thesis using isSpamActivity_no_type [OF None] by simp
      next
        case False
        then show ?thesis by (simp add: isSpamActivity_other_address)
      qed
      have "monitorCalls (c # cs) ws = monitorCalls cs (snd ?R)"
        using txs None by (intro monitorCalls_quiet) simp_all
      then show ?thesis using Cons.IH [of "snd ?R"] same by (simp del: monitorCalls.simps)
    next
      case (Some t)
      note step = monitorCalls_sent [OF txs Some, of cs]
      note IH = Cons.IH [of "snd ?R"]
      show ?thesis
      proof (cases "a = call_address c")
        case True
        from isSpamActivity_some_type [OF Some] True
        have before: "(t = Start) = (\<not> isSpamming (stateOf ws a))"
          and after: "isSpamming (stateOf (snd ?R) a) = (t = Start)"
          by simp_all
        have "typesFor a (fst (monitorCalls (c # cs) ws))
                = t # typesFor a (fst (monitorCalls cs (snd ?R)))"
          using True by (simp add: step typesFor_Cons del: monitorCalls.simps)
        moreover have "t = (if isSpamming (stateOf ws a) then Stop else Start)"
          using before by (cases t) auto
        moreover have "typesFor a (fst (monitorCalls cs (snd ?R))) \<noteq> [] \<Longrightarrow>
                         hd (typesFor a (fst (monitorCalls cs (snd ?R)))) \<noteq> t"
          using IH after by (cases t) auto
        ultimately show ?thesis
          using IH by (auto simp add: alternates_Cons)
      next
        case False
        have "stateOf (snd ?R) a = stateOf ws a"
          using False by (simp add: isSpamActivity_other_address)
        moreover have "typesFor a (fst (monitorCalls (c # cs) ws))
                = typesFor a (fst (monitorCalls cs (snd ?R)))"
          using False by (simp add: step typesFor_Cons del: monitorCalls.simps)
        ultimately show ?thesis using IH by simp
      qed
    qed
  qed
qed

text \<open>
  Claim C4. Over any sequence of classification calls, from any prior states, the notifications
  sent for one address alternate: a start is never followed by a start, nor a stop by a stop.
\<close>

theorem notifications_alternate:
  "alternates (typesFor address (fst (monitorCalls calls ws)))"
  using typesFor_alternates_from [of address calls ws] by blast

lemma replayCalls_notifications:
  "map (\<lambda>n. (n_address n, tx_hash (n_latestTx n), n_type n)) (fst (monitorCalls replayCalls []))
     = [(''0xwallet'', ''0xh1'', Start), (''0xwallet'', ''0xh2'', Stop),
        (''0xwallet'', ''0xh1'', Start)]"
  by (simp add: replayCalls_def burstTxs_def mkTx_def isSpamActivity_def recentTxs_of_def
        stateOf_def newWalletState_def noChange_def)

theorem notifications_alternate_witness:
  "typesFor ''0xwallet'' (fst (monitorCalls replayCalls [])) = [Start, Stop, Start]
   \<and> alternates (typesFor ''0xwallet'' (fst (monitorCalls replayCalls [])))"
proof
  show "typesFor ''0xwallet'' (fst (monitorCalls replayCalls [])) = [Start, Stop, Start]"
    using replayCalls_notifications
    by (auto simp add: typesFor_def map_eq_Cons_conv simp del: monitorCalls.simps)
  show "alternates (typesFor ''0xwallet'' (fst (monitorCalls replayCalls [])))"
    by (rule notifications_alternate)
qed
















lemma monitorCalls_append:
  "snd (monitorCalls (xs @ ys) ws) = snd (monitorCalls ys (snd (monitorCalls xs ws)))"
  by (induction xs arbitrary: ws) (simp_all add: case_prod_beta Let_def split: list.split)

lemma monitorCalls_time_mono:
  "lastStateChangeTime (stateOf ws a)
     \<le> lastStateChangeTime (stateOf (snd (monitorCalls cs ws)) a)"
proof (induction cs arbitrary: ws)
  case Nil
  show ?case by simp
next
  case (Cons c cs)
  show ?case
  proof (cases "call_transactions c")
    case Nil
    then show ?thesis using Cons.IH [of ws] by simp
  next
    case (Cons latestTx others)
    have "lastStateChangeTime (stateOf ws a)
            \<le> lastStateChangeTime
                 (stateOf (snd (isSpamActivity (call_transactions c) (call_address c)
                                  (call_currentBlock c) (call_now c) ws)) a)"
      by (rule isSpamActivity_time_mono)
    also have "\<dots> \<le> lastStateChangeTime (stateOf (snd (monitorCalls (c # cs) ws)) a)"
      using Cons.IH [of "snd (isSpamActivity (call_transactions c) (call_address c)
                                (call_currentBlock c) (call_now c) ws)"] Cons
      by (simp add: case_prod_beta)
    finally show ?thesis .
  qed
qed

text \<open>
  Claim C6. Along any sequence of classification calls, \<open>lastStateChangeTime\<close> of every
  address never decreases: its value after a prefix of the calls is at most its value after
  any longer prefix. (An address without a state yet counts with the initial value 0.)
\<close>

theorem lastStateChangeTime_monotone:
  "lastStateChangeTime (stateOf (snd (monitorCalls calls ws)) address)
     \<le> lastStateChangeTime (stateOf (snd (monitorCalls (calls @ more_calls) ws)) address)"
  by (simp only: monitorCalls_append monitorCalls_time_mono)

theorem lastStateChangeTime_monotone_witness:
  "lastStateChangeTime (stateOf (snd (monitorCalls (take 1 replayCalls) [])) ''0xwallet'')
     \<le> lastStateChangeTime
          (stateOf (snd (monitorCalls (take 1 replayCalls @ drop 1 replayCalls) [])) ''0xwallet'')"
  by (rule lastStateChangeTime_monotone)

section \<open>Properties of the fetchers\<close>

declare getCurrentBlockNumber.simps [simp del]

subsection \<open>One attempt: the limiter, then the request\<close>


lemma attempt_requests:
  "requests (rateLimitedDelay w) = requests w"
  "requests (sendRequest w) = requests w @ [API_KEYS w ! currentApiKeyIndex w]"
  "requests (delay ms w) = requests w"
  by (simp_all add: rateLimitedDelay_def recordCall_def delay_def sendRequest_def getNextApiKey_def
        Let_def split: option.split)



lemma retry_requests:
  "length (requests (delay ms (sendRequest (rateLimitedDelay w)))) = Suc (length (requests w))"
  "length (requests (sendRequest (rateLimitedDelay w))) = Suc (length (requests w))"
  by (simp_all add: attempt_requests)



subsection \<open>Unfolding \<open>fetchTransactions\<close> by the reply\<close>










subsection \<open>The chain height\<close>

lemma getCurrentBlockNumber_retry:
  assumes "\<forall>n. api (length (requests w)) \<noteq> Height_data (Some n)" and "retryCount < MAX_RETRIES"
  shows "getCurrentBlockNumber api ws retryCount w =
           getCurrentBlockNumber api ws (Suc retryCount)
             (delay (RETRY_DELAY * (int retryCount + 1)) (sendRequest (rateLimitedDelay w)))"
  using assms
  by (subst getCurrentBlockNumber.simps)
     (simp add: attempt_requests Let_def split: HeightReply.split option.split)

lemma getCurrentBlockNumber_give_up:
  assumes "\<forall>n. api (length (requests w)) \<noteq> Height_data (Some n)" and "\<not> retryCount < MAX_RETRIES"
  shows "getCurrentBlockNumber api ws retryCount w =
           (lastKnownBlockOr ws, sendRequest (rateLimitedDelay w))"
  using assms
  by (subst getCurrentBlockNumber.simps)
     (simp add: attempt_requests Let_def split: HeightReply.split option.split)

lemma Math_max_Max: "Math_max xs = (if xs = [] then None else Some (Max (set xs)))"
  by (induction xs) (auto simp add: max.commute)

lemma lastKnownBlockOr_Max:
  "lastKnownBlockOr ws =
     (if filter (\<lambda>b. 0 < b) (map lastTxBlock (map snd ws)) = [] then 24000000
      else Max (set (filter (\<lambda>b. 0 < b) (map lastTxBlock (map snd ws)))))"
proof (cases "filter (\<lambda>b. 0 < b) (map lastTxBlock (map snd ws)) = []")
  case True
  then show ?thesis
    by (simp add: lastKnownBlockOr_def Math_max_Max)
next
  case False
  let ?P = "filter (\<lambda>b. 0 < b) (map lastTxBlock (map snd ws))"
  have "finite (set ?P)"
    by (rule finite_set)
  moreover from False have "set ?P \<noteq> {}"
    by (simp only: set_empty not_False_eq_True)
  ultimately have "Max (set ?P) \<in> set ?P"
    by (rule Max_in)
  then have "0 < Max (set ?P)"
    by (simp only: set_filter mem_Collect_eq)
  with False show ?thesis
    by (simp add: lastKnownBlockOr_def Math_max_Max)
qed

text \<open>
  Claim C8. When the height request fails on the first attempt and on all three retries (it
  throws, or the answer carries no result), \<open>getCurrentBlockNumber\<close> returns the largest
  positive \<open>lastTxBlock\<close> of the known wallet states, and 24000000 when no state has a
  positive one. It returns a number in either case.
\<close>

theorem getCurrentBlockNumber_fallback:
  assumes "\<forall>k<4. \<forall>n. api (length (requests w) + k) \<noteq> Height_data (Some n)"
  shows "fst (getCurrentBlockNumber api ws 0 w) =
           (if filter (\<lambda>b. 0 < b) (map lastTxBlock (map snd ws)) = [] then 24000000
            else Max (set (filter (\<lambda>b. 0 < b) (map lastTxBlock (map snd ws)))))
       \<and> length (requests (snd (getCurrentBlockNumber api ws 0 w))) = length (requests w) + 4"
proof -
  let ?w1 = "delay (RETRY_DELAY * (int 0 + 1)) (sendRequest (rateLimitedDelay w))"
  let ?w2 = "delay (RETRY_DELAY * (int (Suc 0) + 1)) (sendRequest (rateLimitedDelay ?w1))"
  let ?w3 = "delay (RETRY_DELAY * (int (Suc (Suc 0)) + 1)) (sendRequest (rateLimitedDelay ?w2))"
  have replies: "\<forall>n. api (length (requests w)) \<noteq> Height_data (Some n)"
    "\<forall>n. api (length (requests w) + 1) \<noteq> Height_data (Some n)"
    "\<forall>n. api (length (requests w) + 2) \<noteq> Height_data (Some n)"
    "\<forall>n. api (length (requests w) + 3) \<noteq> Height_data (Some n)"
    using assms [rule_format, of 0] assms [rule_format, of 1] assms [rule_format, of 2]
      assms [rule_format, of 3]
    by simp_all
  have r1: "length (requests ?w1) = length (requests w) + 1"
    by (simp add: retry_requests)
  have r2: "length (requests ?w2) = length (requests w) + 2"
    by (simp add: retry_requests)
  have r3: "length (requests ?w3) = length (requests w) + 3"
    by (simp add: retry_requests)
  have "getCurrentBlockNumber api ws 0 w = getCurrentBlockNumber api ws (Suc 0) ?w1"
    using replies(1) by (intro getCurrentBlockNumber_retry) (simp_all add: MAX_RETRIES_def)
  also have "\<dots> = getCurrentBlockNumber api ws (Suc (Suc 0)) ?w2"
    using replies(2) r1 by (intro getCurrentBlockNumber_retry) (simp_all add: MAX_RETRIES_def)
  also have "\<dots> = getCurrentBlockNumber api ws (Suc (Suc (Suc 0))) ?w3"
    using replies(3) r2 by (intro getCurrentBlockNumber_retry) (simp_all add: MAX_RETRIES_def)
  also have "\<dots> = (lastKnownBlockOr ws, sendRequest (rateLimitedDelay ?w3))"
    using replies(4) r3 by (intro getCurrentBlockNumber_give_up) (simp_all add: MAX_RETRIES_def)
  finally have result: "getCurrentBlockNumber api ws 0 w
                          = (lastKnownBlockOr ws, sendRequest (rateLimitedDelay ?w3))" .
  show ?thesis
    by (simp add: result lastKnownBlockOr_Max retry_requests r3)
qed

theorem getCurrentBlockNumber_fallback_witness:
  "fst (getCurrentBlockNumber (\<lambda>n. Height_error) knownStates 0 freshWorld) = 250
   \<and> fst (getCurrentBlockNumber (\<lambda>n. Height_data None) [(''0xidle'', newWalletState)] 0 freshWorld)
       = 24000000"
proof -
  have h1: "\<forall>k<4. \<forall>n. (\<lambda>n. Height_error) (length (requests freshWorld) + k) \<noteq> Height_data (Some n)"
    by simp
  have h2: "\<forall>k<4. \<forall>n. (\<lambda>n. Height_data None) (length (requests freshWorld) + k)
                        \<noteq> Height_data (Some n)"
    by simp
  from getCurrentBlockNumber_fallback [OF h1, of knownStates]
    getCurrentBlockNumber_fallback [OF h2, of "[(''0xidle'', newWalletState)]"]
  show ?thesis
    by (simp add: knownStates_def burstingState_def newWalletState_def)
qed

section \<open>Properties of the rate limiter\<close>

text \<open>
  One acquisition that nothing interrupts, \<open>rateLimitedDelay()\<close> followed by the request:
  it records the slot of the key it then sends, at least \<open>RATE_LIMIT_DELAY\<close> after that
  slot's previous record, and moves the cursor to the next key of the pool.
\<close>

lemma undisturbed_acquisition:
  assumes "currentApiKeyIndex w < length (lastApiCalls w)"
  shows "recorded (sendRequest (rateLimitedDelay w))
           = recorded w @ [(currentApiKeyIndex w,
                            lastApiCalls (sendRequest (rateLimitedDelay w)) ! currentApiKeyIndex w)]
       \<and> lastApiCalls w ! currentApiKeyIndex w + RATE_LIMIT_DELAY
           \<le> lastApiCalls (sendRequest (rateLimitedDelay w)) ! currentApiKeyIndex w
       \<and> requests (sendRequest (rateLimitedDelay w))
           = requests w @ [API_KEYS w ! currentApiKeyIndex w]
       \<and> currentApiKeyIndex (sendRequest (rateLimitedDelay w))
           = (currentApiKeyIndex w + 1) mod length (API_KEYS w)"
  using assms
  by (auto simp add: rateLimitedDelay_def rateLimitWait_def recordCall_def delay_def
        sendRequest_def getNextApiKey_def Let_def)



lemma height_fetched:
  "getCurrentBlockNumber heightAnswered [] 0 freshWorld =
     (24000100,
      freshWorld\<lparr>lastApiCalls := [1700000000000, 0, 0, 0, 0], recorded := [(0, 1700000000000)],
                 currentApiKeyIndex := 1, requests := [''k0'']\<rparr>)"
  by (subst getCurrentBlockNumber.simps)
     (simp add: heightAnswered_def rateLimitedDelay_def rateLimitWait_def recordCall_def
        sendRequest_def getNextApiKey_def freshWorld_def RATE_LIMIT_DELAY_def)

lemma startAll_three:
  "startAll 3
     (freshWorld\<lparr>lastApiCalls := [1700000000000, 0, 0, 0, 0], recorded := [(0, 1700000000000)],
                 currentApiKeyIndex := 1, requests := [''k0'']\<rparr>) =
     ([Ready, Sleeping 1 1700000000050, Sleeping 1 1700000000050],
      freshWorld\<lparr>lastApiCalls := [1700000000000, 1700000000000, 0, 0, 0],
                 recorded := [(0, 1700000000000), (1, 1700000000000)],
                 currentApiKeyIndex := 1, requests := [''k0''], delays := [50, 50]\<rparr>)"
  by (simp add: numeral_3_eq_3 startFetch_def rateLimitWait_def recordCall_def freshWorld_def
        RATE_LIMIT_DELAY_def)

lemma sorted_timers:
  "sort_key snd (sleepers [Ready, Sleeping 1 1700000000050, Sleeping 1 1700000000050])
     = [(1, 1700000000050), (1, 1700000000050)]"
  by simp

lemma ready_resumed:
  "resumeReady [Ready, Sleeping 1 1700000000050, Sleeping 1 1700000000050]
     (freshWorld\<lparr>lastApiCalls := [1700000000000, 1700000000000, 0, 0, 0],
                 recorded := [(0, 1700000000000), (1, 1700000000000)],
                 currentApiKeyIndex := 1, requests := [''k0''], delays := [50, 50]\<rparr>)
   = freshWorld\<lparr>lastApiCalls := [1700000000000, 1700000000000, 0, 0, 0],
                 recorded := [(0, 1700000000000), (1, 1700000000000)],
                 currentApiKeyIndex := 2, requests := [''k0'', ''k1''], delays := [50, 50]\<rparr>"
  by (simp add: sendRequest_def getNextApiKey_def freshWorld_def)

lemma timers_fired:
  "fireTimers [(1, 1700000000050), (1, 1700000000050)]
     (freshWorld\<lparr>lastApiCalls := [1700000000000, 1700000000000, 0, 0, 0],
                 recorded := [(0, 1700000000000), (1, 1700000000000)],
                 currentApiKeyIndex := 2, requests := [''k0'', ''k1''], delays := [50, 50]\<rparr>)
   = freshWorld\<lparr>lastApiCalls := [1700000000000, 1700000000050, 0, 0, 0],
                 recorded := [(0, 1700000000000), (1, 1700000000000), (1, 1700000000050),
                              (1, 1700000000050)],
                 currentApiKeyIndex := 4, requests := [''k0'', ''k1'', ''k2'', ''k3''],
                 delays := [50, 50], clock := 1700000000050\<rparr>"
  by (simp add: sendRequest_def getNextApiKey_def recordCall_def freshWorld_def)

text \<open>
  Claim C9 on the code as \<open>monitorWalletBatch\<close> runs it. The first tick for three wallets
  on a pool of five keys: the height request records slot 0 and moves the cursor to 1; the
  three fetches started together all read the cursor 1 before any of them moves it, so all
  three are recorded under slot 1, the second and third at the same millisecond, while their
  requests go out with the keys 1, 2 and 3, whose slots 2 and 3 are never recorded. The
  spacing of at least \<open>RATE_LIMIT_DELAY\<close> between records of one slot is not kept.
\<close>

theorem fetches_started_together:
  "recorded (monitorWalletBatch_requests heightAnswered [] 3 freshWorld)
     = [(0, 1700000000000), (1, 1700000000000), (1, 1700000000050), (1, 1700000000050)]
   \<and> requests (monitorWalletBatch_requests heightAnswered [] 3 freshWorld)
       = [''k0'', ''k1'', ''k2'', ''k3'']
   \<and> lastApiCalls (monitorWalletBatch_requests heightAnswered [] 3 freshWorld)
       = [1700000000000, 1700000000050, 0, 0, 0]
   \<and> \<not> spacingKept (recorded (monitorWalletBatch_requests heightAnswered [] 3 freshWorld))"
proof -
  have "monitorWalletBatch_requests heightAnswered [] 3 freshWorld
          = freshWorld\<lparr>lastApiCalls := [1700000000000, 1700000000050, 0, 0, 0],
                 recorded := [(0, 1700000000000), (1, 1700000000000), (1, 1700000000050),
                              (1, 1700000000050)],
                 currentApiKeyIndex := 4, requests := [''k0'', ''k1'', ''k2'', ''k3''],
                 delays := [50, 50], clock := 1700000000050\<rparr>"
    by (simp only: monitorWalletBatch_requests_def height_fetched startFetchesTogether_def
          startAll_three Let_def split_conv sorted_timers ready_resumed timers_fired)
       simp
  then show ?thesis
    by (simp add: RATE_LIMIT_DELAY_def)
qed

end
